theory Spec2Isabelle
  imports Main "HOL-Library.AList" "HOL-Library.Sublist"
begin

section \<open>The option codec of \<open>library/docker_plugin.py\<close>\<close>

text \<open>
  A Python \<open>dict\<close> is modelled as an association list in insertion order whose keys are
  distinct. Storing a key that is already there replaces its value in place and storing a
  new key appends it, which is what \<^const>\<open>AList.update\<close> does. The values of
  \<open>plugin_options\<close> may be \<open>None\<close>, so they are \<open>string option\<close>.
\<close>

type_synonym options = "(string \<times> string option) list"

text \<open>The exceptions a run can end with: the two Python exceptions the code can raise
  and \<open>client.fail(msg)\<close>, which ends the module with the message.\<close>

datatype exc = ValueError | AttributeError | FailJson string

text \<open>\<open>'%s=%s' % (k, v if v is not None else "")\<close>\<close>

definition format_option :: "string \<times> string option \<Rightarrow> string" where
  "format_option kv = fst kv @ ''='' @ (case snd kv of None \<Rightarrow> [] | Some v \<Rightarrow> v)"

text \<open>\<open>prepare_options\<close>: the comprehension when \<open>options\<close> is truthy (neither \<open>None\<close>
  nor empty), the empty list otherwise.\<close>

definition prepare_options :: "options option \<Rightarrow> string list" where
  "prepare_options opts =
     (case opts of
        None \<Rightarrow> []
      | Some m \<Rightarrow> (if m = [] then [] else map format_option m))"

text \<open>\<open>x.split('=', 1)\<close>: one element when \<open>x\<close> has no \<open>=\<close>, otherwise the text before
  the first \<open>=\<close> and the text after it.\<close>

definition split_eq :: "string \<Rightarrow> string list" where
  "split_eq x =
     (if CHR ''='' \<in> set x
      then [takeWhile (\<lambda>c. c \<noteq> CHR ''='') x, tl (dropWhile (\<lambda>c. c \<noteq> CHR ''='') x)]
      else [x])"

text \<open>\<open>dict((k, v) for k, v in map(lambda x: x.split('=', 1), options_list))\<close>: the entries
  are consumed in order; unpacking a one-element list into \<open>k, v\<close> raises \<open>ValueError\<close>.\<close>

fun parse_entries :: "string list \<Rightarrow> (string \<times> string) list \<Rightarrow> exc + (string \<times> string) list" where
  "parse_entries [] d = Inr d"
| "parse_entries (x # xs) d =
     (case split_eq x of
        [k, v] \<Rightarrow> parse_entries xs (AList.update k v d)
      | _ \<Rightarrow> Inl ValueError)"

definition parse_options :: "string list option \<Rightarrow> exc + (string \<times> string) list" where
  "parse_options options_list =
     (case options_list of
        None \<Rightarrow> Inr []
      | Some xs \<Rightarrow> (if xs = [] then Inr [] else parse_entries xs []))"

text \<open>The specification's reading of decoding, for comparison with \<^const>\<open>parse_options\<close>:
  \<open>cut_eq\<close> splits an entry once on its first \<open>=\<close>, and \<open>decode_spec\<close> is the mapping that
  sends each key to the value of the last entry carrying it.\<close>

fun cut_eq :: "string \<Rightarrow> (string \<times> string) option" where
  "cut_eq [] = None"
| "cut_eq (c # cs) =
     (if c = CHR ''='' then Some ([], cs)
      else (case cut_eq cs of None \<Rightarrow> None | Some (k, v) \<Rightarrow> Some (c # k, v)))"

fun decode_spec :: "string list \<Rightarrow> (string \<rightharpoonup> string)" where
  "decode_spec [] = Map.empty"
| "decode_spec (x # xs) =
     (case cut_eq x of
        None \<Rightarrow> decode_spec xs
      | Some (k, v) \<Rightarrow> (case decode_spec xs k of None \<Rightarrow> (decode_spec xs)(k \<mapsto> v) | Some _ \<Rightarrow> decode_spec xs))"

section \<open>Error messages\<close>

text \<open>
  \<open>wrap_error(prefix, error)\<close> joins \<open>str(prefix)\<close> and the text of the error with \<open>". "\<close>.
  Three call sites pass the prefix inside parentheses with a trailing comma, which makes it
  a one-element tuple; \<open>str\<close> of such a tuple is \<open>(\<close>, the \<open>repr\<close> of the string, \<open>,)\<close>.
  \<open>py_repr\<close> is Python 3's \<open>repr\<close> of a string whose characters are the code points
  below 256: it quotes with \<open>'\<close> unless the string has a \<open>'\<close> and no \<open>"\<close>, and escapes the
  backslash, the chosen quote and the characters that are not printable.
\<close>

datatype prefix = Text string | Tuple1 string

definition printable :: "char \<Rightarrow> bool" where
  "printable c = (let n = (of_char c :: nat) in (32 \<le> n \<and> n < 127) \<or> (161 \<le> n \<and> n \<noteq> 173))"

definition hex_digit :: "nat \<Rightarrow> char" where
  "hex_digit n = ''0123456789abcdef'' ! (n mod 16)"

definition escape_char :: "char \<Rightarrow> char \<Rightarrow> string" where
  "escape_char q c =
     (if c = q \<or> c = CHR 0x5C then [CHR 0x5C, c]
      else if c = CHR 0x09 then [CHR 0x5C, CHR ''t'']
      else if c = CHR 0x0A then [CHR 0x5C, CHR ''n'']
      else if c = CHR 0x0D then [CHR 0x5C, CHR ''r'']
      else if \<not> printable c
        then [CHR 0x5C, CHR ''x'', hex_digit ((of_char c :: nat) div 16), hex_digit (of_char c)]
      else [c])"

definition py_repr :: "string \<Rightarrow> string" where
  "py_repr s =
     (let q = (if CHR 0x27 \<in> set s \<and> CHR 0x22 \<notin> set s then CHR 0x22 else CHR 0x27)
      in [q] @ concat (map (escape_char q) s) @ [q])"

fun py_str :: "prefix \<Rightarrow> string" where
  "py_str (Text s) = s"
| "py_str (Tuple1 s) = ''('' @ py_repr s @ '',)''"

definition wrap_error :: "prefix \<Rightarrow> string \<Rightarrow> string" where
  "wrap_error pre error = py_str pre @ ''. '' @ error"

text \<open>\<open>'%s' % x\<close> for an optional string: \<open>None\<close> is printed as \<open>None\<close>.\<close>

fun percent_s :: "string option \<Rightarrow> string" where
  "percent_s None = ''None''"
| "percent_s (Some s) = s"

section \<open>The data of a run\<close>

datatype target_state = Present | Absent | Enabled | Disabled

record task_parameters =
  name :: "string option"
  plugin_alias :: string
  plugin_options :: "options option"
  state :: target_state
  debug :: bool

text \<open>A plugin as the engine reports it: the \<open>enabled\<close> property and \<open>settings['Env']\<close>,
  which may be null.\<close>

record plugin =
  enabled :: bool
  settings_Env :: "string list option"

text \<open>The values a difference can carry: a boolean (for \<open>exists\<close>), an optional string (a
  desired value, or the result of \<open>dict.get\<close>), a dictionary.\<close>

datatype pyval = PyBool bool | PyStr "string option" | PyDict options

record difference =
  key :: string
  parameter :: pyval
  active :: pyval

text \<open>
  Modelled from the spec: \<open>DifferenceTracker\<close>, which the module imports from the Ansible
  collection's \<open>module_utils\<close> and which is not part of \<open>src/\<close>. A tracker is the list of its
  records; \<open>add\<close> appends one, \<open>merge\<close> appends the other tracker's records, \<open>empty\<close> holds
  when there is none, \<open>get_before_after\<close> builds the two dictionaries with the last record
  of a key winning, and the legacy rendering is the records as they are.
\<close>

definition tracker_add :: "string \<Rightarrow> pyval \<Rightarrow> pyval \<Rightarrow> difference list \<Rightarrow> difference list" where
  "tracker_add k p a t = t @ [\<lparr>key = k, parameter = p, active = a\<rparr>]"

definition tracker_merge :: "difference list \<Rightarrow> difference list \<Rightarrow> difference list" where
  "tracker_merge t other = t @ other"

definition tracker_empty :: "difference list \<Rightarrow> bool" where
  "tracker_empty t = (length t = 0)"

definition get_before_after :: "difference list \<Rightarrow> (string \<times> pyval) list \<times> (string \<times> pyval) list" where
  "get_before_after t =
     (fold (\<lambda>item before. AList.update (key item) (active item) before) t [],
      fold (\<lambda>item after. AList.update (key item) (parameter item) after) t [])"

definition get_legacy_docker_diffs :: "difference list \<Rightarrow> difference list" where
  "get_legacy_docker_diffs t = t"

text \<open>\<open>results['diff']\<close> holds the legacy list while a handler runs and the \<open>diff_result\<close>
  dictionary (empty, or with \<open>before\<close> and \<open>after\<close>) at the end.\<close>

datatype diff_value =
    Legacy "difference list"
  | Diff_Result "((string \<times> pyval) list \<times> (string \<times> pyval) list) option"

text \<open>The \<open>results\<close> dictionary: \<open>actions\<close> is \<open>None\<close> once the key has been popped, \<open>diff\<close>
  is \<open>None\<close> while the key has not been set.\<close>

record results =
  changed :: bool
  actions :: "string list option"
  diff :: "diff_value option"

section \<open>The engine\<close>

text \<open>
  The calls the module makes on the Docker client: \<open>plugins.get(alias)\<close>,
  \<open>plugins.install(name, alias)\<close>, and \<open>remove()\<close>, \<open>enable(1)\<close>, \<open>disable()\<close> and
  \<open>configure(options)\<close> on the plugin object.
\<close>

datatype call =
    Lookup string
  | Install "string option" string
  | Remove
  | Enable nat
  | Disable
  | Configure "string list"

fun mutating :: "call \<Rightarrow> bool" where
  "mutating (Lookup a) = False"
| "mutating c = True"

text \<open>
  The engine is outside the repository. It is modelled as the test double the
  specification describes (sections 4.3 and 9): it holds the plugin registered under the
  alias, or none; a successful call has the effect its name says; installing registers
  a disabled plugin. \<open>set_env\<close> stores one \<open>KEY=VALUE\<close> entry over the entry of the same key.
\<close>

fun set_env :: "string \<Rightarrow> string list \<Rightarrow> string list" where
  "set_env x [] = [x]"
| "set_env x (y # ys) =
     (if takeWhile (\<lambda>c. c \<noteq> CHR ''='') y = takeWhile (\<lambda>c. c \<noteq> CHR ''='') x
      then x # ys else y # set_env x ys)"

fun effect :: "string list option \<Rightarrow> call \<Rightarrow> plugin option \<Rightarrow> plugin option" where
  "effect d (Lookup a) e = e"
| "effect d (Install n a) e = Some \<lparr>enabled = False, settings_Env = d\<rparr>"
| "effect d Remove e = None"
| "effect d (Enable t) e = map_option (\<lambda>p. p\<lparr>enabled := True\<rparr>) e"
| "effect d Disable e = map_option (\<lambda>p. p\<lparr>enabled := False\<rparr>) e"
| "effect d (Configure opts) e =
     map_option (\<lambda>p. p\<lparr>settings_Env :=
        Some (fold set_env opts (case settings_Env p of None \<Rightarrow> [] | Some xs \<Rightarrow> xs))\<rparr>) e"

text \<open>
  What a run is given, and does not change: the module parameters, check mode and the diff
  flag (\<open>want_diff\<close> for \<open>self.diff\<close>) of the Ansible client, and the engine's side of the
  connection, namely the environment \<open>install_env\<close> a newly installed plugin gets and
  \<open>fault\<close>, which says for the n-th call of the run whether it raises \<open>APIError\<close> and with
  which text.
\<close>

record client =
  parameters :: task_parameters
  check_mode :: bool
  want_diff :: bool
  install_env :: "string list option"
  fault :: "nat \<Rightarrow> string option"

text \<open>
  The state of a run: the fields of \<open>DockerPluginManager\<close> that change (\<open>results\<close>,
  \<open>diff_tracker\<close>, \<open>diff_result\<close>, \<open>existing_plugin\<close>), the plugin the engine holds, and
  what the run has done: \<open>trace\<close> lists the calls made on the engine, \<open>failed\<close> is set when
  an exception or \<open>client.fail\<close> has ended the run, and \<open>inspected\<close> records, each time the
  code reads \<open>enabled\<close> or \<open>settings\<close> of \<open>existing_plugin\<close>, how many calls had been
  made by then.
\<close>

record manager =
  results :: results
  diff_tracker :: "difference list"
  diff_result :: "((string \<times> pyval) list \<times> (string \<times> pyval) list) option"
  existing_plugin :: "plugin option"
  engine :: "plugin option"
  trace :: "call list"
  failed :: "exc option"
  inspected :: "nat list"

text \<open>One call on the engine: it is recorded, it raises \<open>APIError\<close> when the fault script
  says so, and otherwise has its effect.\<close>

definition api :: "client \<Rightarrow> call \<Rightarrow> manager \<Rightarrow> string option \<times> manager" where
  "api c x m =
     (case fault c (length (trace m)) of
        Some error \<Rightarrow> (Some error, m\<lparr>trace := trace m @ [x]\<rparr>)
      | None \<Rightarrow> (None, m\<lparr>trace := trace m @ [x], engine := effect (install_env c) x (engine m)\<rparr>))"

definition fail :: "string \<Rightarrow> manager \<Rightarrow> manager" where
  "fail msg m = m\<lparr>failed := Some (FailJson msg)\<rparr>"

definition raise :: "exc \<Rightarrow> manager \<Rightarrow> manager" where
  "raise e m = m\<lparr>failed := Some e\<rparr>"

definition inspect :: "manager \<Rightarrow> manager" where
  "inspect m = m\<lparr>inspected := inspected m @ [length (trace m)]\<rparr>"

text \<open>\<open>self.results['actions'].append(s)\<close> and \<open>self.results['changed'] = True\<close>\<close>

definition append_action :: "string \<Rightarrow> manager \<Rightarrow> manager" where
  "append_action s m = m\<lparr>results := (results m)\<lparr>actions := map_option (\<lambda>a. a @ [s]) (actions (results m))\<rparr>\<rparr>"

definition set_changed :: "manager \<Rightarrow> manager" where
  "set_changed m = m\<lparr>results := (results m)\<lparr>changed := True\<rparr>\<rparr>"

section \<open>The methods of \<open>DockerPluginManager\<close>\<close>

text \<open>
  The prefixes handed to \<open>wrap_error\<close> and the action texts, as the methods below build
  them. The prefixes for enabling, disabling and updating are written in the source inside
  parentheses with a trailing comma, so they are one-element tuples.
\<close>

definition query_prefix :: prefix where
  "query_prefix = Text ''Failed to query existing plugins''"

definition install_prefix :: "client \<Rightarrow> prefix" where
  "install_prefix c =
     Text (''Failed to install local docker logging plugin '' @ plugin_alias (parameters c)
           @ '' from '' @ percent_s (name (parameters c)))"

definition remove_prefix :: "client \<Rightarrow> prefix" where
  "remove_prefix c = Text (''Failed to remove local docker logging plugin '' @ plugin_alias (parameters c))"

definition enable_prefix :: "client \<Rightarrow> prefix" where
  "enable_prefix c =
     Tuple1 (''Failed to enable local docker logging plugin '' @ plugin_alias (parameters c) @ ''. '')"

definition disable_prefix :: "client \<Rightarrow> prefix" where
  "disable_prefix c =
     Tuple1 (''Failed to disable local docker logging plugin '' @ plugin_alias (parameters c) @ ''. '')"

definition update_prefix :: "client \<Rightarrow> prefix" where
  "update_prefix c = Tuple1 (''Failed to update local docker logging plugin '' @ plugin_alias (parameters c))"

definition installed_action :: "client \<Rightarrow> string" where
  "installed_action c =
     ''Installed local docker logging plugin '' @ plugin_alias (parameters c)
     @ '' from '' @ percent_s (name (parameters c)) @ ''.''"

definition removed_action :: "client \<Rightarrow> string" where
  "removed_action c = ''Removed local docker logging plugin '' @ plugin_alias (parameters c) @ ''.''"

definition enabled_action :: "client \<Rightarrow> string" where
  "enabled_action c = ''Enabled local docker logging plugin '' @ plugin_alias (parameters c) @ ''.''"

definition disabled_action :: "client \<Rightarrow> string" where
  "disabled_action c = ''Disabled local docker logging plugin '' @ plugin_alias (parameters c) @ ''.''"

definition updated_action :: "client \<Rightarrow> string" where
  "updated_action c = ''Updated local docker logging plugin '' @ plugin_alias (parameters c) @ '' settings.''"

text \<open>\<open>get_existing_plugin\<close>: \<open>NotFound\<close> gives \<open>None\<close>, any other \<open>APIError\<close> ends the run.\<close>

definition get_existing_plugin :: "client \<Rightarrow> manager \<Rightarrow> plugin option \<times> manager" where
  "get_existing_plugin c m =
     (case api c (Lookup (plugin_alias (parameters c))) m of
        (Some error, m') \<Rightarrow> (None, fail (wrap_error query_prefix error) m')
      | (None, m') \<Rightarrow> (engine m', m'))"

text \<open>The loop of \<open>has_different_config\<close> over the items of the desired options.\<close>

fun option_differences :: "options \<Rightarrow> (string \<times> string) list \<Rightarrow> difference list" where
  "option_differences [] existing_options = []"
| "option_differences ((k, v) # rest) existing_options =
     (let active_value = map_of existing_options k in
        (if active_value \<noteq> v
         then [\<lparr>key = ''plugin_options.'' @ k, parameter = PyStr v, active = PyStr active_value\<rparr>]
         else [])
        @ option_differences rest existing_options)"

text \<open>\<open>has_different_config\<close>, for the desired options and the existing plugin (the method
  is only called when there is one).\<close>

definition has_different_config :: "options option \<Rightarrow> plugin \<Rightarrow> exc + difference list" where
  "has_different_config opts p =
     (case opts of
        None \<Rightarrow> Inr []
      | Some desired \<Rightarrow>
          if desired = [] then Inr []
          else (case parse_options (settings_Env p) of
                  Inl e \<Rightarrow> Inl e
                | Inr existing_options \<Rightarrow>
                    if existing_options = []
                    then Inr [\<lparr>key = ''plugin_options'', parameter = PyDict desired, active = PyDict []\<rparr>]
                    else Inr (option_differences desired existing_options)))"

text \<open>The first lines of \<open>present\<close> and of \<open>enable\<close>: the differences are computed when a
  plugin exists; the settings are read when the desired options are not empty.\<close>

definition compute_differences :: "client \<Rightarrow> manager \<Rightarrow> difference list \<times> manager" where
  "compute_differences c m =
     (case existing_plugin m of
        None \<Rightarrow> ([], m)
      | Some p \<Rightarrow>
          (let opts = plugin_options (parameters c);
               m1 = (if opts = None \<or> opts = Some [] then m else inspect m)
           in case has_different_config opts p of
                Inl e \<Rightarrow> ([], raise e m1)
              | Inr differences \<Rightarrow> (differences, m1)))"

definition install_plugin :: "client \<Rightarrow> manager \<Rightarrow> manager" where
  "install_plugin c m =
     (if existing_plugin m = None then
        (let m1 =
           (if \<not> check_mode c then
              (case api c (Install (name (parameters c)) (plugin_alias (parameters c))) m of
                 (Some error, m') \<Rightarrow>
                   fail (wrap_error
                      (install_prefix c) error) m'
               | (None, m') \<Rightarrow> m'\<lparr>existing_plugin := engine m'\<rparr>)
            else m)
         in if failed m1 = None
            then set_changed (append_action
                   (installed_action c) m1)
            else m1)
      else m)"

definition remove_plugin :: "client \<Rightarrow> manager \<Rightarrow> manager" where
  "remove_plugin c m =
     (if existing_plugin m \<noteq> None then
        (let m1 =
           (if \<not> check_mode c then
              (case api c Remove m of
                 (Some error, m') \<Rightarrow>
                   fail (wrap_error
                      (remove_prefix c) error) m'
               | (None, m') \<Rightarrow> m')
            else m)
         in if failed m1 = None
            then set_changed (append_action
                   (removed_action c) m1)
            else m1)
      else m)"

text \<open>\<open>enable_plugin\<close> looks the plugin up again and then reads \<open>enabled\<close> of the result,
  which raises \<open>AttributeError\<close> when the result is \<open>None\<close>.\<close>

definition enable_plugin :: "client \<Rightarrow> bool \<Rightarrow> manager \<Rightarrow> manager" where
  "enable_plugin c main_action m =
     (case get_existing_plugin c m of (found, m1) \<Rightarrow>
        if failed m1 \<noteq> None then m1
        else (let m2 = m1\<lparr>existing_plugin := found\<rparr> in
          case existing_plugin m2 of
            None \<Rightarrow> raise AttributeError m2
          | Some p \<Rightarrow>
              (let m3 = inspect m2 in
               if \<not> enabled p then
                 (let m4 =
                    (if \<not> check_mode c then
                       (case api c (Enable 1) m3 of
                          (Some error, m') \<Rightarrow>
                            fail (wrap_error
                               (enable_prefix c) error) m'
                        | (None, m') \<Rightarrow> m')
                     else m3)
                  in if failed m4 = None \<and> main_action
                     then set_changed (append_action
                            (enabled_action c) m4)
                     else m4)
               else m3)))"

definition disable_plugin :: "client \<Rightarrow> bool \<Rightarrow> manager \<Rightarrow> manager" where
  "disable_plugin c main_action m =
     (case existing_plugin m of
        None \<Rightarrow> m
      | Some p \<Rightarrow>
          (let m1 = inspect m in
           if enabled p then
             (let m2 =
                (if \<not> check_mode c then
                   (case api c Disable m1 of
                      (Some error, m') \<Rightarrow>
                        fail (wrap_error
                           (disable_prefix c) error) m'
                    | (None, m') \<Rightarrow> m')
                 else m1)
              in if failed m2 = None \<and> main_action
                 then set_changed (append_action
                        (disabled_action c) m2)
                 else m2)
           else m1))"

text \<open>\<open>update_plugin\<close>. The variable \<open>need_enable\<close> of the source is assigned and never
  read, so it has no counterpart here.\<close>

definition update_plugin :: "client \<Rightarrow> difference list \<Rightarrow> manager \<Rightarrow> manager" where
  "update_plugin c differences m =
     (let m1 =
        (if \<not> check_mode c then
           (let must_enable = (state (parameters c) = Enabled) in
            case existing_plugin m of
              None \<Rightarrow> raise AttributeError m
            | Some p \<Rightarrow>
                (let m2 = inspect m;
                     m3 = (if enabled p then disable_plugin c False m2 else m2)
                 in if failed m3 \<noteq> None then m3
                    else (case api c (Configure (prepare_options (plugin_options (parameters c)))) m3 of
                            (Some error, m') \<Rightarrow>
                              fail (wrap_error
                                 (update_prefix c) error) m'
                          | (None, m') \<Rightarrow> if must_enable then enable_plugin c False m' else m')))
         else m)
      in if failed m1 = None
         then set_changed (append_action
                (updated_action c) m1)
         else m1)"

text \<open>The last two statements of \<open>present\<close> and of \<open>enable\<close>.\<close>

definition report_differences :: "client \<Rightarrow> difference list \<Rightarrow> manager \<Rightarrow> manager" where
  "report_differences c differences m =
     (let m1 =
        (if want_diff c \<or> check_mode c \<or> debug (parameters c)
         then m\<lparr>results := (results m)\<lparr>diff := Some (Legacy (get_legacy_docker_diffs differences))\<rparr>,
                diff_tracker := tracker_merge (diff_tracker m) differences\<rparr>
         else m)
      in if \<not> check_mode c \<and> \<not> debug (parameters c)
         then m1\<lparr>results := (results m1)\<lparr>actions := None\<rparr>\<rparr>
         else m1)"

text \<open>\<open>self.diff_tracker.add('exists', parameter=True, active=self.existing_plugin is not None)\<close>\<close>

definition add_exists :: "manager \<Rightarrow> manager" where
  "add_exists m =
     m\<lparr>diff_tracker :=
          tracker_add ''exists'' (PyBool True) (PyBool (existing_plugin m \<noteq> None)) (diff_tracker m)\<rparr>"

definition present :: "client \<Rightarrow> manager \<Rightarrow> manager" where
  "present c m =
     (case compute_differences c m of (differences, m1) \<Rightarrow>
        if failed m1 \<noteq> None then m1
        else (let m2 = add_exists m1;
                  m3 = (if \<not> tracker_empty differences
                        then update_plugin c differences m2
                        else install_plugin c m2)
              in if failed m3 \<noteq> None then m3 else report_differences c differences m3))"

definition absent :: "client \<Rightarrow> manager \<Rightarrow> manager" where
  "absent c m = remove_plugin c m"

definition enable :: "client \<Rightarrow> manager \<Rightarrow> manager" where
  "enable c m =
     (case compute_differences c m of (differences, m1) \<Rightarrow>
        if failed m1 \<noteq> None then m1
        else (let m2 = add_exists m1;
                  m3 = (if \<not> tracker_empty differences
                        then update_plugin c differences m2
                        else (let m' = install_plugin c m2
                              in if failed m' \<noteq> None then m' else enable_plugin c True m'))
              in if failed m3 \<noteq> None then m3 else report_differences c differences m3))"

definition disable :: "client \<Rightarrow> manager \<Rightarrow> manager" where
  "disable c m = disable_plugin c True m"

text \<open>The dispatch on \<open>state\<close> in \<open>__init__\<close>, and the block after it that stores the diff.\<close>

definition dispatch :: "client \<Rightarrow> manager \<Rightarrow> manager" where
  "dispatch c m =
     (case state (parameters c) of
        Present \<Rightarrow> present c m
      | Absent \<Rightarrow> absent c m
      | Enabled \<Rightarrow> enable c m
      | Disabled \<Rightarrow> disable c m)"

definition store_diff :: "client \<Rightarrow> manager \<Rightarrow> manager" where
  "store_diff c m =
     (if want_diff c \<or> check_mode c \<or> debug (parameters c)
      then (let m1 = (if want_diff c
                      then m\<lparr>diff_result := Some (get_before_after (diff_tracker m))\<rparr>
                      else m)
            in m1\<lparr>results := (results m1)\<lparr>diff := Some (Diff_Result (diff_result m1))\<rparr>\<rparr>)
      else m)"

text \<open>\<open>DockerPluginManager.__init__\<close>, from the first lookup on.\<close>

definition manager_init :: "client \<Rightarrow> manager \<Rightarrow> manager" where
  "manager_init c m =
     (case get_existing_plugin c m of (found, m1) \<Rightarrow>
        if failed m1 \<noteq> None then m1
        else (let m2 = dispatch c (m1\<lparr>existing_plugin := found\<rparr>)
              in if failed m2 \<noteq> None then m2 else store_diff c m2))"

text \<open>The fields as \<open>__init__\<close> sets them before the first lookup, over an engine that holds
  \<open>eng\<close> under the alias.\<close>

definition new_manager :: "plugin option \<Rightarrow> manager" where
  "new_manager eng =
     \<lparr>results = \<lparr>changed = False, actions = Some [], diff = None\<rparr>,
      diff_tracker = [], diff_result = None, existing_plugin = None,
      engine = eng, trace = [], failed = None, inspected = []\<rparr>"

text \<open>A run of the module over an engine that holds \<open>eng\<close>, and what \<open>main\<close> hands to the
  caller: the exception or failure message, or the results passed to \<open>exit_json\<close>.\<close>

definition run :: "client \<Rightarrow> plugin option \<Rightarrow> manager" where
  "run c eng = manager_init c (new_manager eng)"

definition outcome :: "manager \<Rightarrow> exc + results" where
  "outcome m = (case failed m of Some e \<Rightarrow> Inl e | None \<Rightarrow> Inr (results m))"

text \<open>\<open>contains s t\<close>: the text \<open>s\<close> occurs in \<open>t\<close>.\<close>

definition contains :: "string \<Rightarrow> string \<Rightarrow> bool" where
  "contains s t = sublist s t"

definition no_fault :: "nat \<Rightarrow> string option" where
  "no_fault n = None"

section \<open>Properties of the codec\<close>

lemma cut_eq_None: "cut_eq x = None \<longleftrightarrow> CHR ''='' \<notin> set x"
  by (induction x) (auto split: option.splits)

lemma cut_eq_append: "CHR ''='' \<notin> set k \<Longrightarrow> cut_eq (k @ CHR ''='' # v) = Some (k, v)"
  by (induction k) auto

lemma cut_eq_SomeD: "cut_eq x = Some (k, v) \<Longrightarrow> x = k @ CHR ''='' # v \<and> CHR ''='' \<notin> set k"
  by (induction x arbitrary: k) (auto split: if_splits option.splits)

lemma cut_eq_Some: "cut_eq x = Some (k, v) \<longleftrightarrow> x = k @ ''='' @ v \<and> CHR ''='' \<notin> set k"
  using cut_eq_append cut_eq_SomeD by fastforce

lemma takeWhile_cut: "cut_eq x = Some (k, v) \<Longrightarrow> takeWhile (\<lambda>c. c \<noteq> CHR ''='') x = k"
  by (induction x arbitrary: k) (auto split: if_splits option.splits)

lemma dropWhile_cut: "cut_eq x = Some (k, v) \<Longrightarrow> dropWhile (\<lambda>c. c \<noteq> CHR ''='') x = CHR ''='' # v"
  by (induction x arbitrary: k) (auto split: if_splits option.splits)

lemma split_eq_cut_eq:
  "split_eq x = (case cut_eq x of None \<Rightarrow> [x] | Some (k, v) \<Rightarrow> [k, v])"
proof (cases "cut_eq x")
  case None
  moreover from None have "CHR ''='' \<notin> set x" using cut_eq_None [of x] by blast
  ultimately show ?thesis by (simp add: split_eq_def)
next
  case (Some kv)
  obtain k v where kv: "kv = (k, v)" by (cases kv)
  have "CHR ''='' \<in> set x" using Some cut_eq_None [of x] by auto
  then show ?thesis using Some kv takeWhile_cut [of x k v] dropWhile_cut [of x k v]
    by (simp add: split_eq_def)
qed

lemma parse_entries_Cons:
  "parse_entries (x # xs) d =
     (case cut_eq x of None \<Rightarrow> Inl ValueError | Some (k, v) \<Rightarrow> parse_entries xs (AList.update k v d))"
  by (simp add: split_eq_cut_eq split: option.splits)

lemma parse_entries_error: "parse_entries xs d = Inl e \<Longrightarrow> e = ValueError"
  by (induction xs arbitrary: d) (auto simp: parse_entries_Cons simp del: parse_entries.simps(2) split: option.splits)

lemma parse_entries_fails_iff:
  "parse_entries xs d = Inl ValueError \<longleftrightarrow> (\<exists>x\<in>set xs. CHR ''='' \<notin> set x)"
proof (induction xs arbitrary: d)
  case Nil
  then show ?case by simp
next
  case (Cons x xs)
  show ?case
  proof (cases "cut_eq x")
    case None
    then show ?thesis using cut_eq_None [of x] by (simp add: parse_entries_Cons del: parse_entries.simps(2))
  next
    case (Some kv)
    then have "CHR ''='' \<in> set x" using cut_eq_None [of x] by auto
    then show ?thesis using Some Cons.IH
      by (cases kv) (simp add: parse_entries_Cons del: parse_entries.simps(2))
  qed
qed

lemma parse_entries_decode:
  "\<forall>x\<in>set xs. CHR ''='' \<in> set x \<Longrightarrow>
     \<exists>r. parse_entries xs d = Inr r \<and> map_of r = map_of d ++ decode_spec xs"
proof (induction xs arbitrary: d)
  case Nil
  then show ?case by simp
next
  case (Cons x xs)
  from Cons.prems have "cut_eq x \<noteq> None" using cut_eq_None [of x] by simp
  then obtain k v where kv: "cut_eq x = Some (k, v)" by auto
  from Cons.prems have "\<forall>y\<in>set xs. CHR ''='' \<in> set y" by simp
  from Cons.IH [OF this, of "AList.update k v d"]
  obtain r where r: "parse_entries xs (AList.update k v d) = Inr r"
    and m: "map_of r = map_of (AList.update k v d) ++ decode_spec xs" by blast
  have "map_of (AList.update k v d) ++ decode_spec xs = map_of d ++ decode_spec (x # xs)"
    by (rule ext) (auto simp: kv update_conv' map_add_def split: option.splits)
  with r m kv show ?case
    by (simp add: parse_entries_Cons del: parse_entries.simps(2) decode_spec.simps(2))
qed

lemma update_fresh: "k \<notin> fst ` set d \<Longrightarrow> AList.update k v d = d @ [(k, v)]"
  by (induction d) auto

lemma cut_eq_format_option:
  "CHR ''='' \<notin> set k \<Longrightarrow> cut_eq (format_option (k, Some v)) = Some (k, v)"
  using cut_eq_append [of k v] by (simp add: format_option_def)

lemma parse_entries_prepare:
  "distinct (map fst m) \<Longrightarrow> \<forall>k\<in>fst ` set m. CHR ''='' \<notin> set k \<Longrightarrow>
   fst ` set m \<inter> fst ` set d = {} \<Longrightarrow>
   parse_entries (map format_option (map (\<lambda>(k, v). (k, Some v)) m)) d = Inr (d @ m)"
proof (induction m arbitrary: d)
  case Nil
  then show ?case by simp
next
  case (Cons kv m)
  obtain k v where kv: "kv = (k, v)" by (cases kv)
  from Cons.prems kv have fresh: "k \<notin> fst ` set d" and noeq: "CHR ''='' \<notin> set k" by auto
  have d': "AList.update k v d = d @ [(k, v)]" using fresh by (rule update_fresh)
  have "fst ` set m \<inter> fst ` set (d @ [(k, v)]) = {}"
    using Cons.prems kv by auto
  moreover have "distinct (map fst m)" "\<forall>k\<in>fst ` set m. CHR ''='' \<notin> set k"
    using Cons.prems by auto
  ultimately have "parse_entries (map format_option (map (\<lambda>(k, v). (k, Some v)) m)) (d @ [(k, v)])
      = Inr ((d @ [(k, v)]) @ m)"
    using Cons.IH by blast
  then show ?case
    using kv d' cut_eq_format_option [OF noeq, of v]
    by (simp add: parse_entries_Cons del: parse_entries.simps(2))
qed

text \<open>
  Claim C5, as amended. Decoding the encoding of a mapping with non-null string values
  gives the mapping back (the same entries, in the same order), provided no key contains
  the separator \<open>=\<close>. The mapping is a Python dict, so its keys are distinct.
\<close>

theorem roundtrip_without_separator_in_keys:
  assumes "distinct (map fst m)" and "\<forall>k\<in>fst ` set m. CHR ''='' \<notin> set k"
  shows "parse_options (Some (prepare_options (Some (map (\<lambda>(k, v). (k, Some v)) m)))) = Inr m"
proof (cases "m = []")
  case True
  then show ?thesis by (simp add: parse_options_def prepare_options_def)
next
  case False
  then show ?thesis
    using parse_entries_prepare [OF assms, of "[]"]
    by (simp add: parse_options_def prepare_options_def)
qed

theorem roundtrip_without_separator_in_keys_witness:
  "parse_options (Some (prepare_options (Some [(''LOG_LEVEL'', Some ''a=b''), (''X'', Some [])])))
     = Inr [(''LOG_LEVEL'', ''a=b''), (''X'', [])]"
  using roundtrip_without_separator_in_keys [of "[(''LOG_LEVEL'', ''a=b''), (''X'', [])]"]
  by simp

text \<open>
  Claim C5 as stated fails: a key that contains \<open>=\<close> is cut at its first \<open>=\<close> when decoded,
  so the mapping \<open>{"a=b": "c"}\<close> comes back as \<open>{"a": "b=c"}\<close>.
\<close>

theorem roundtrip_counterexample:
  "parse_options (Some (prepare_options (Some [(''a=b'', Some ''c'')]))) = Inr [(''a'', ''b=c'')]
   \<and> map_of [(''a'', ''b=c'')] ''a=b'' \<noteq> map_of [(''a=b'', ''c'')] ''a=b''"
  by (simp add: parse_options_def prepare_options_def format_option_def split_eq_def)

text \<open>
  Claim C6. \<open>parse_options\<close> fails exactly when some entry has no \<open>=\<close>, and then with the
  \<open>ValueError\<close> of the failed unpacking (the error the specification calls
  MalformedOptionError); no other error is possible. When every entry has an \<open>=\<close> the result
  is the mapping of the entries split once at their first \<open>=\<close>, where \<open>cut_eq\<close> is that
  split; an empty or absent list gives the empty mapping.
\<close>

theorem parse_options_fails_iff_entry_without_separator:
  "(parse_options (Some xs) = Inl ValueError \<longleftrightarrow> (\<exists>x\<in>set xs. CHR ''='' \<notin> set x))
   \<and> (\<forall>e. parse_options (Some xs) = Inl e \<longrightarrow> e = ValueError)
   \<and> ((\<forall>x\<in>set xs. CHR ''='' \<in> set x) \<longrightarrow>
        (\<exists>d. parse_options (Some xs) = Inr d \<and> map_of d = decode_spec xs))
   \<and> (\<forall>x k v. cut_eq x = Some (k, v) \<longleftrightarrow> x = k @ ''='' @ v \<and> CHR ''='' \<notin> set k)
   \<and> parse_options (Some []) = Inr [] \<and> parse_options None = Inr []"
proof -
  have a: "parse_options (Some xs) = Inl ValueError \<longleftrightarrow> (\<exists>x\<in>set xs. CHR ''='' \<notin> set x)"
    using parse_entries_fails_iff [of xs "[]"] by (cases xs) (simp_all add: parse_options_def)
  have b: "\<forall>e. parse_options (Some xs) = Inl e \<longrightarrow> e = ValueError"
    using parse_entries_error [of xs "[]"] by (auto simp: parse_options_def split: if_splits)
  have c: "(\<forall>x\<in>set xs. CHR ''='' \<in> set x) \<longrightarrow>
        (\<exists>d. parse_options (Some xs) = Inr d \<and> map_of d = decode_spec xs)"
    using parse_entries_decode [of xs "[]"] by (cases xs) (simp_all add: parse_options_def)
  have d: "\<forall>x k v. cut_eq x = Some (k, v) \<longleftrightarrow> x = k @ ''='' @ v \<and> CHR ''='' \<notin> set k"
    using cut_eq_Some by blast
  show ?thesis using a b c d by (simp add: parse_options_def)
qed

theorem parse_options_fails_iff_entry_without_separator_witness:
  "CHR ''='' \<notin> set ''broken''
   \<and> parse_options (Some [''LOG_LEVEL=info'', ''broken'']) = Inl ValueError
   \<and> (\<exists>d. parse_options (Some [''A=1'', ''B=x=y'', ''A=2'']) = Inr d
          \<and> map_of d = decode_spec [''A=1'', ''B=x=y'', ''A=2''])"
  using parse_options_fails_iff_entry_without_separator [of "[''LOG_LEVEL=info'', ''broken'']"]
    parse_options_fails_iff_entry_without_separator [of "[''A=1'', ''B=x=y'', ''A=2'']"]
  by simp

end
